theory Spec2Isabelle
  imports Main "HOL-Library.Word"
begin

section \<open>The Wordpress controller: data model\<close>

text \<open>
  The controller of \<^verbatim>\<open>pkg/controller/wordpress/wordpress_controller.go\<close> works on
  Kubernetes objects. Only the fields the controller reads or writes are modelled.
  A Go slice is a list; a \<^verbatim>\<open>nil\<close> slice and an empty slice are both \<open>[]\<close> (the
  controller only takes \<^verbatim>\<open>len\<close> of them and ranges over them). A Go pointer field
  that may be \<^verbatim>\<open>nil\<close> is an \<open>option\<close>.
\<close>

record OwnerReference =
  APIVersion :: string
  Kind :: string
  Name :: string
  UID :: string
  Controller :: "bool option"
  BlockOwnerDeletion :: "bool option"

record ObjectMeta =
  Name :: string
  Namespace :: string
  UID :: string
  OwnerReferences :: "OwnerReference list"

record NamespacedName =
  Namespace :: string
  Name :: string

record RouteSpec =
  Domain :: string
  Path :: string

record PersistentVolumeClaimSpec =
  StorageClassName :: "string option"
  VolumeName :: string

record CodeVolumeSpec =
  ReadOnly :: bool
  PersistentVolumeClaim :: "PersistentVolumeClaimSpec option"

record MediaVolumeSpec =
  PersistentVolumeClaim :: "PersistentVolumeClaimSpec option"

record WordpressSpec =
  Routes :: "RouteSpec list"
  Domains :: "string list"
  CodeVolumeSpec :: "CodeVolumeSpec option"
  MediaVolumeSpec :: "MediaVolumeSpec option"

record WordpressStatus =
  Replicas :: "32 word"

record Wordpress =
  ObjectMeta :: ObjectMeta
  Spec :: WordpressSpec
  Status :: WordpressStatus

record CronJob =
  ObjectMeta :: ObjectMeta

section \<open>Migration of the deprecated domain list\<close>

text \<open>
  \<^verbatim>\<open>for i := range out.Spec.Domains { out.Spec.Routes = append(out.Spec.Routes, ...);
  needsMigration = true }\<close>: one pass over the domains, carrying the routes built so far
  and the flag.
\<close>

fun migrate_domains :: "string list \<Rightarrow> RouteSpec list \<Rightarrow> bool \<Rightarrow> RouteSpec list \<times> bool" where
  "migrate_domains [] routes needsMigration = (routes, needsMigration)"
| "migrate_domains (d # ds) routes needsMigration =
     migrate_domains ds (routes @ [\<lparr>Domain = d, Path = ''/''\<rparr>]) True"

text \<open>
  \<open>maybeMigrate\<close> on values: the result is the content of the object \<^verbatim>\<open>out\<close> and the
  flag. The pointer-level version, with \<^verbatim>\<open>DeepCopy\<close> and the writes to \<^verbatim>\<open>out\<close> in a
  store, is \<open>maybeMigrate_ptr\<close> below.
\<close>

definition maybeMigrate :: "Wordpress \<Rightarrow> Wordpress \<times> bool" where
  "maybeMigrate wp =
     (let out = wp;
          (routes, needsMigration) =
            (if length (Routes (Spec out)) = 0
             then migrate_domains (Domains (Spec out)) (Routes (Spec out)) False
             else (Routes (Spec out), False));
          out = out\<lparr>Spec := (Spec out)\<lparr>Routes := routes\<rparr>\<rparr>;
          out = out\<lparr>Spec := (Spec out)\<lparr>Domains := []\<rparr>\<rparr>
      in (out, needsMigration))"

subsection \<open>The migration on pointers\<close>

text \<open>
  \<^verbatim>\<open>maybeMigrate\<close> takes a pointer and returns a pointer. The store of Wordpress
  objects is a list and an address is an index into it: allocation appends, so a new
  address is always fresh. An address outside the store plays the role of \<^verbatim>\<open>nil\<close>,
  and reading through it is the panic of the source (\<open>None\<close>).
\<close>

type_synonym addr = nat
type_synonym heap = "Wordpress list"

definition deref :: "heap \<Rightarrow> addr \<Rightarrow> Wordpress option" where
  "deref h a = (if a < length h then Some (h ! a) else None)"

text \<open>
  Modelled from the spec: \<^verbatim>\<open>DeepCopy\<close> is generated code of the package
  \<^verbatim>\<open>pkg/apis/wordpress/v1alpha1\<close>, which is not among the sources. The specification
  calls its result ``a transformed copy'' that leaves ``the original untouched'': a
  new object with the same content that shares nothing with the original. On
  \<^verbatim>\<open>nil\<close> it returns \<^verbatim>\<open>nil\<close>, which \<open>maybeMigrate\<close> dereferences at once.
\<close>

definition DeepCopy :: "addr \<Rightarrow> heap \<Rightarrow> (addr \<times> heap) option" where
  "DeepCopy a h = (case deref h a of None \<Rightarrow> None | Some v \<Rightarrow> Some (length h, h @ [v]))"

text \<open>
  The loop \<^verbatim>\<open>for i := range out.Spec.Domains\<close> over the indices, reading and writing
  the object at \<^verbatim>\<open>out\<close> at each step. An index out of range would panic.
\<close>

fun migrate_range :: "nat list \<Rightarrow> addr \<Rightarrow> bool \<Rightarrow> heap \<Rightarrow> (bool \<times> heap) option" where
  "migrate_range [] out needsMigration h = Some (needsMigration, h)"
| "migrate_range (i # is) out needsMigration h =
     (case deref h out of
        None \<Rightarrow> None
      | Some v \<Rightarrow>
          if i < length (Domains (Spec v))
          then migrate_range is out True
                 (h[out := v\<lparr>Spec := (Spec v)
                      \<lparr>Routes := Routes (Spec v) @ [\<lparr>Domain = Domains (Spec v) ! i, Path = ''/''\<rparr>]\<rparr>\<rparr>])
          else None)"

definition maybeMigrate_ptr :: "addr \<Rightarrow> heap \<Rightarrow> ((addr \<times> bool) \<times> heap) option" where
  "maybeMigrate_ptr wp h =
     (case DeepCopy wp h of
        None \<Rightarrow> None
      | Some (out, h) \<Rightarrow>
          (case deref h out of
             None \<Rightarrow> None
           | Some v \<Rightarrow>
               (case (if length (Routes (Spec v)) = 0
                      then migrate_range [0..<length (Domains (Spec v))] out False h
                      else Some (False, h)) of
                  None \<Rightarrow> None
                | Some (needsMigration, h) \<Rightarrow>
                    (case deref h out of
                       None \<Rightarrow> None
                     | Some v \<Rightarrow>
                         Some ((out, needsMigration), h[out := v\<lparr>Spec := (Spec v)\<lparr>Domains := []\<rparr>\<rparr>])))))"

section \<open>The collaborators of the controller\<close>

text \<open>
  An error is a value of a type \<open>'e\<close> that the controller never inspects, except
  through \<^verbatim>\<open>errors.IsNotFound\<close>; a Go \<^verbatim>\<open>error\<close> that may be \<^verbatim>\<open>nil\<close> is an
  \<open>'e option\<close>.

  The syncers come from the package \<^verbatim>\<open>internal/sync\<close>, which the controller only
  calls. A syncer is the term that names its constructor and the arguments the
  controller passes (the client argument, always \<^verbatim>\<open>r.Client\<close>, is left out);
  \<^verbatim>\<open>s.Object()\<close> is the reference to the object the syncer \<open>s\<close> holds. What running
  a syncer does is a parameter (\<open>Sync\<close> below).
\<close>

datatype syncer =
    NewSecretSyncer Wordpress
  | NewDeploymentSyncer Wordpress object_ref
  | NewServiceSyncer Wordpress
  | NewIngressSyncer Wordpress
  | NewCodePVCSyncer Wordpress
  | NewMediaPVCSyncer Wordpress
and object_ref = Object syncer

text \<open>
  \<^verbatim>\<open>reconcile.Request\<close> and \<^verbatim>\<open>reconcile.Result\<close> of controller-runtime;
  \<^verbatim>\<open>RequeueAfter\<close> is a \<^verbatim>\<open>time.Duration\<close>, a 64-bit integer.
\<close>

record Request =
  NamespacedName :: NamespacedName

record Result =
  Requeue :: bool
  RequeueAfter :: "64 word"

text \<open>
  Everything the controller calls and does not define: the methods of the client
  interface (\<^verbatim>\<open>r.Get\<close> at the two object types it is used with, \<^verbatim>\<open>r.Update\<close>,
  \<^verbatim>\<open>r.Status().Update\<close>, \<^verbatim>\<open>r.Delete\<close>), \<^verbatim>\<open>errors.IsNotFound\<close>,
  \<^verbatim>\<open>r.scheme.Default\<close>, \<^verbatim>\<open>wp.SetDefaults\<close>,
  \<^verbatim>\<open>wp.ComponentName(wordpress.WordpressCron)\<close>, \<^verbatim>\<open>syncer.Sync\<close>, and the read of
  \<^verbatim>\<open>Status.Replicas\<close> of the deployment a syncer holds. \<open>'s\<close> is the state these
  calls act on: the cluster, the event recorder and the objects the syncers hold.
  The two defaulting calls change the object \<^verbatim>\<open>wp\<close> points to in place; here they
  return the new content. The syncers are taken to read \<^verbatim>\<open>wp\<close>, not to write it,
  and the answer of the server to a write is not copied back into the object in hand.
  The two type assertions on \<^verbatim>\<open>Object()\<close> are taken to succeed: the secret syncer
  holds a secret and the deployment syncer a deployment.
\<close>

record ('s, 'e) env =
  Get :: "NamespacedName \<Rightarrow> 's \<Rightarrow> ('e + Wordpress) \<times> 's"
  Update :: "Wordpress \<Rightarrow> 's \<Rightarrow> 'e option \<times> 's"
  StatusUpdate :: "Wordpress \<Rightarrow> 's \<Rightarrow> 'e option \<times> 's"
  GetCronJob :: "NamespacedName \<Rightarrow> 's \<Rightarrow> ('e + CronJob) \<times> 's"
  Delete :: "CronJob \<Rightarrow> 's \<Rightarrow> 'e option \<times> 's"
  IsNotFound :: "'e \<Rightarrow> bool"
  Default :: "Wordpress \<Rightarrow> Wordpress"
  SetDefaults :: "Wordpress \<Rightarrow> Wordpress"
  ComponentName_WordpressCron :: "Wordpress \<Rightarrow> string"
  Sync :: "syncer \<Rightarrow> 's \<Rightarrow> 'e option \<times> 's"
  DeploymentStatusReplicas :: "object_ref \<Rightarrow> 's \<Rightarrow> 32 word"

text \<open>
  Every call the controller makes to a collaborator is recorded, with its argument as
  it is at the time of the call, next to the state of the collaborators.
\<close>

datatype call =
    CallGet NamespacedName
  | CallUpdate Wordpress
  | CallDefault Wordpress
  | CallSetDefaults Wordpress
  | CallNew syncer
  | CallSync syncer
  | CallStatusUpdate Wordpress
  | CallGetCronJob NamespacedName
  | CallDelete CronJob

record 's world =
  calls :: "call list"
  store :: 's

definition record_call :: "call \<Rightarrow> 's \<Rightarrow> 's world \<Rightarrow> 's world" where
  "record_call c st w = \<lparr>calls = calls w @ [c], store = st\<rparr>"

definition client_Get :: "('s, 'e) env \<Rightarrow> NamespacedName \<Rightarrow> 's world \<Rightarrow> ('e + Wordpress) \<times> 's world" where
  "client_Get r key w = (case Get r key (store w) of (res, st) \<Rightarrow> (res, record_call (CallGet key) st w))"

definition client_Update :: "('s, 'e) env \<Rightarrow> Wordpress \<Rightarrow> 's world \<Rightarrow> 'e option \<times> 's world" where
  "client_Update r obj w = (case Update r obj (store w) of (err, st) \<Rightarrow> (err, record_call (CallUpdate obj) st w))"

definition client_StatusUpdate :: "('s, 'e) env \<Rightarrow> Wordpress \<Rightarrow> 's world \<Rightarrow> 'e option \<times> 's world" where
  "client_StatusUpdate r obj w =
     (case StatusUpdate r obj (store w) of (err, st) \<Rightarrow> (err, record_call (CallStatusUpdate obj) st w))"

definition client_GetCronJob :: "('s, 'e) env \<Rightarrow> NamespacedName \<Rightarrow> 's world \<Rightarrow> ('e + CronJob) \<times> 's world" where
  "client_GetCronJob r key w =
     (case GetCronJob r key (store w) of (res, st) \<Rightarrow> (res, record_call (CallGetCronJob key) st w))"

definition client_Delete :: "('s, 'e) env \<Rightarrow> CronJob \<Rightarrow> 's world \<Rightarrow> 'e option \<times> 's world" where
  "client_Delete r obj w = (case Delete r obj (store w) of (err, st) \<Rightarrow> (err, record_call (CallDelete obj) st w))"

definition scheme_Default :: "('s, 'e) env \<Rightarrow> Wordpress \<Rightarrow> 's world \<Rightarrow> Wordpress \<times> 's world" where
  "scheme_Default r wp w = (Default r wp, record_call (CallDefault wp) (store w) w)"

definition wp_SetDefaults :: "('s, 'e) env \<Rightarrow> Wordpress \<Rightarrow> 's world \<Rightarrow> Wordpress \<times> 's world" where
  "wp_SetDefaults r wp w = (SetDefaults r wp, record_call (CallSetDefaults wp) (store w) w)"

definition new_syncer :: "syncer \<Rightarrow> 's world \<Rightarrow> syncer \<times> 's world" where
  "new_syncer s w = (s, record_call (CallNew s) (store w) w)"

definition syncer_Sync :: "('s, 'e) env \<Rightarrow> syncer \<Rightarrow> 's world \<Rightarrow> 'e option \<times> 's world" where
  "syncer_Sync r s w = (case Sync r s (store w) of (err, st) \<Rightarrow> (err, record_call (CallSync s) st w))"

section \<open>The controller\<close>

definition ignoreNotFound :: "('s, 'e) env \<Rightarrow> 'e \<Rightarrow> 'e option" where
  "ignoreNotFound r err = (if IsNotFound r err then None else Some err)"

text \<open>\<^verbatim>\<open>sync\<close>: the loop over the syncers returns at the first error.\<close>

fun sync :: "('s, 'e) env \<Rightarrow> syncer list \<Rightarrow> 's world \<Rightarrow> 'e option \<times> 's world" where
  "sync r [] w = (None, w)"
| "sync r (s # syncers) w =
     (case syncer_Sync r s w of
        (Some err, w') \<Rightarrow> (Some err, w')
      | (None, w') \<Rightarrow> sync r syncers w')"

fun isOwnedBy :: "OwnerReference list \<Rightarrow> Wordpress \<Rightarrow> bool" where
  "isOwnedBy [] owner = False"
| "isOwnedBy (ref # refs) owner =
     (if (Kind ref = ''Wordpress'' \<or> Kind ref = ''wordpress'')
         \<and> OwnerReference.Name ref = ObjectMeta.Name (Wordpress.ObjectMeta owner)
      then True
      else isOwnedBy refs owner)"

definition cleanupCronJob :: "('s, 'e) env \<Rightarrow> Wordpress \<Rightarrow> 's world \<Rightarrow> 'e option \<times> 's world" where
  "cleanupCronJob r wp w =
     (let cronKey = \<lparr>Namespace = ObjectMeta.Namespace (Wordpress.ObjectMeta wp),
                     Name = ComponentName_WordpressCron r wp\<rparr>
      in case client_GetCronJob r cronKey w of
           (Inl err, w') \<Rightarrow> (ignoreNotFound r err, w')
         | (Inr cronJob, w') \<Rightarrow>
             if \<not> isOwnedBy (OwnerReferences (CronJob.ObjectMeta cronJob)) wp
             then (None, w')
             else client_Delete r cronJob w')"

text \<open>
  The part of \<open>Reconcile\<close> that builds the list of syncers (from
  \<^verbatim>\<open>secretSyncer := ...\<close> to the second \<^verbatim>\<open>append\<close>). It returns the list and
  \<^verbatim>\<open>deploySyncer\<close>, which \<open>Reconcile\<close> reads again after the synchronisation.
\<close>

definition build_syncers :: "Wordpress \<Rightarrow> 's world \<Rightarrow> (syncer list \<times> syncer) \<times> 's world" where
  "build_syncers wp w =
     (let (secretSyncer, w) = new_syncer (NewSecretSyncer wp) w;
          (deploySyncer, w) = new_syncer (NewDeploymentSyncer wp (Object secretSyncer)) w;
          (serviceSyncer, w) = new_syncer (NewServiceSyncer wp) w;
          (ingressSyncer, w) = new_syncer (NewIngressSyncer wp) w;
          syncers = [secretSyncer, deploySyncer, serviceSyncer, ingressSyncer];
          (syncers, w) =
            (case WordpressSpec.CodeVolumeSpec (Spec wp) of
               None \<Rightarrow> (syncers, w)
             | Some cv \<Rightarrow>
                 (case CodeVolumeSpec.PersistentVolumeClaim cv of
                    None \<Rightarrow> (syncers, w)
                  | Some pvc \<Rightarrow> (case new_syncer (NewCodePVCSyncer wp) w of (s, w) \<Rightarrow> (syncers @ [s], w))));
          (syncers, w) =
            (case WordpressSpec.MediaVolumeSpec (Spec wp) of
               None \<Rightarrow> (syncers, w)
             | Some mv \<Rightarrow>
                 (case MediaVolumeSpec.PersistentVolumeClaim mv of
                    None \<Rightarrow> (syncers, w)
                  | Some pvc \<Rightarrow> (case new_syncer (NewMediaPVCSyncer wp) w of (s, w) \<Rightarrow> (syncers @ [s], w))))
      in ((syncers, deploySyncer), w))"

text \<open>
  \<open>Reconcile\<close>. Each \<^verbatim>\<open>return\<close> of the source is one result here; \<^verbatim>\<open>reconcile.Result{}\<close>
  is the record with both fields at their zero value.
\<close>

definition Reconcile :: "('s, 'e) env \<Rightarrow> Request \<Rightarrow> 's world \<Rightarrow> (Result \<times> 'e option) \<times> 's world" where
  "Reconcile r request w =
     (case client_Get r (NamespacedName request) w of
        (Inl err, w) \<Rightarrow> ((\<lparr>Requeue = False, RequeueAfter = 0\<rparr>, ignoreNotFound r err), w)
      | (Inr wp, w) \<Rightarrow>
          (case maybeMigrate wp of
             (updated, True) \<Rightarrow>
               (case client_Update r updated w of
                  (err, w) \<Rightarrow> ((\<lparr>Requeue = False, RequeueAfter = 0\<rparr>, err), w))
           | (updated, False) \<Rightarrow>
               (let (wp, w) = scheme_Default r wp w;
                    (wp, w) = wp_SetDefaults r wp w
                in case build_syncers wp w of
                  ((syncers, deploySyncer), w) \<Rightarrow>
                    (case sync r syncers w of
                       (Some err, w) \<Rightarrow> ((\<lparr>Requeue = False, RequeueAfter = 0\<rparr>, Some err), w)
                     | (None, w) \<Rightarrow>
                         (let oldStatus = Status wp;
                              wp = wp\<lparr>Status := (Status wp)
                                     \<lparr>Replicas := DeploymentStatusReplicas r (Object deploySyncer) (store w)\<rparr>\<rparr>
                          in case (if Replicas oldStatus \<noteq> Replicas (Status wp)
                                   then client_StatusUpdate r wp w
                                   else (None, w)) of
                               (Some errUp, w) \<Rightarrow> ((\<lparr>Requeue = False, RequeueAfter = 0\<rparr>, Some errUp), w)
                             | (None, w) \<Rightarrow>
                                 (case cleanupCronJob r wp w of
                                    (Some err, w) \<Rightarrow> ((\<lparr>Requeue = False, RequeueAfter = 0\<rparr>, Some err), w)
                                  | (None, w) \<Rightarrow> ((\<lparr>Requeue = False, RequeueAfter = 0\<rparr>, None), w)))))))"

section \<open>A small cluster for concrete runs\<close>

text \<open>
  An in-memory cluster and a client over it, in the manner of a fake client in a test:
  the stored Wordpress resources and cron jobs by key, the replica count the
  deployment reports, and the syncers that have been applied. Errors are strings.
  The outcome of each syncer is a parameter, so that a run can make one of them fail.
\<close>

record cluster =
  wordpresses :: "(NamespacedName \<times> Wordpress) list"
  cronjobs :: "(NamespacedName \<times> CronJob) list"
  deployment_replicas :: "32 word"
  synced :: "syncer list"

definition key_of :: "ObjectMeta \<Rightarrow> NamespacedName" where
  "key_of m = \<lparr>Namespace = ObjectMeta.Namespace m, Name = ObjectMeta.Name m\<rparr>"

definition fake_client :: "(syncer \<Rightarrow> string option) \<Rightarrow> (cluster, string) env" where
  "fake_client sync_result =
     \<lparr>Get = (\<lambda>key c. case map_of (wordpresses c) key of
                        None \<Rightarrow> (Inl ''NotFound'', c)
                      | Some wp \<Rightarrow> (Inr wp, c)),
      Update = (\<lambda>wp c. case map_of (wordpresses c) (key_of (Wordpress.ObjectMeta wp)) of
                        None \<Rightarrow> (Some ''NotFound'', c)
                      | Some old \<Rightarrow>
                          (None, c\<lparr>wordpresses :=
                             map (\<lambda>(k, x). if k = key_of (Wordpress.ObjectMeta wp) then (k, wp) else (k, x))
                               (wordpresses c)\<rparr>)),
      StatusUpdate = (\<lambda>wp c. case map_of (wordpresses c) (key_of (Wordpress.ObjectMeta wp)) of
                        None \<Rightarrow> (Some ''NotFound'', c)
                      | Some old \<Rightarrow>
                          (None, c\<lparr>wordpresses :=
                             map (\<lambda>(k, x). if k = key_of (Wordpress.ObjectMeta wp)
                                             then (k, x\<lparr>Status := Status wp\<rparr>) else (k, x))
                               (wordpresses c)\<rparr>)),
      GetCronJob = (\<lambda>key c. case map_of (cronjobs c) key of
                        None \<Rightarrow> (Inl ''NotFound'', c)
                      | Some job \<Rightarrow> (Inr job, c)),
      Delete = (\<lambda>job c. (None, c\<lparr>cronjobs :=
                             filter (\<lambda>(k, x). k \<noteq> key_of (CronJob.ObjectMeta job)) (cronjobs c)\<rparr>)),
      IsNotFound = (\<lambda>err. err = ''NotFound''),
      Default = (\<lambda>wp. wp),
      SetDefaults = (\<lambda>wp. wp),
      ComponentName_WordpressCron = (\<lambda>wp. ObjectMeta.Name (Wordpress.ObjectMeta wp) @ ''-wp-cron''),
      Sync = (\<lambda>s c. case sync_result s of
                        Some err \<Rightarrow> (Some err, c)
                      | None \<Rightarrow> (None, c\<lparr>synced := synced c @ [s]\<rparr>)),
      DeploymentStatusReplicas = (\<lambda>obj c. deployment_replicas c)\<rparr>"

definition blog_key :: NamespacedName where
  "blog_key = \<lparr>Namespace = ''default'', Name = ''blog''\<rparr>"

definition blog_request :: Request where
  "blog_request = \<lparr>NamespacedName = blog_key\<rparr>"

definition blog_meta :: ObjectMeta where
  "blog_meta = \<lparr>ObjectMeta.Name = ''blog'', ObjectMeta.Namespace = ''default'',
                 ObjectMeta.UID = ''uid-new'', OwnerReferences = []\<rparr>"

text \<open>A resource in the deprecated shape: two domains and no route.\<close>

definition blog_legacy :: Wordpress where
  "blog_legacy =
     \<lparr>Wordpress.ObjectMeta = blog_meta,
      Spec = \<lparr>Routes = [], Domains = [''a.example'', ''b.example''],
              CodeVolumeSpec = None, MediaVolumeSpec = None\<rparr>,
      Status = \<lparr>Replicas = 0\<rparr>\<rparr>"

text \<open>A resource in the current shape that still carries a deprecated domain.\<close>

definition blog :: Wordpress where
  "blog =
     \<lparr>Wordpress.ObjectMeta = blog_meta,
      Spec = \<lparr>Routes = [\<lparr>Domain = ''a.example'', Path = ''/''\<rparr>], Domains = [''old.example''],
              CodeVolumeSpec = Some \<lparr>ReadOnly = False,
                                     CodeVolumeSpec.PersistentVolumeClaim = Some \<lparr>StorageClassName = None, VolumeName = ''code''\<rparr>\<rparr>,
              MediaVolumeSpec = None\<rparr>,
      Status = \<lparr>Replicas = 1\<rparr>\<rparr>"

definition cluster_with :: "Wordpress \<Rightarrow> CronJob list \<Rightarrow> 32 word \<Rightarrow> cluster" where
  "cluster_with wp jobs n =
     \<lparr>wordpresses = [(key_of (Wordpress.ObjectMeta wp), wp)],
      cronjobs = map (\<lambda>job. (key_of (CronJob.ObjectMeta job), job)) jobs,
      deployment_replicas = n,
      synced = []\<rparr>"

definition empty_cluster :: cluster where
  "empty_cluster = \<lparr>wordpresses = [], cronjobs = [], deployment_replicas = 0, synced = []\<rparr>"

definition no_failure :: "syncer \<Rightarrow> string option" where
  "no_failure s = None"

definition deployment_fails :: "syncer \<Rightarrow> string option" where
  "deployment_fails s = (case s of NewDeploymentSyncer wp secret \<Rightarrow> Some ''boom'' | _ \<Rightarrow> None)"

text \<open>
  Two legacy cron jobs with the name the controller looks for. The first belongs to an
  earlier Wordpress resource of the same name, deleted since (its UID is not that of
  \<open>blog\<close>); the second belongs to a deployment.
\<close>

definition stale_cron :: CronJob where
  "stale_cron =
     \<lparr>CronJob.ObjectMeta =
        \<lparr>ObjectMeta.Name = ''blog-wp-cron'', ObjectMeta.Namespace = ''default'',
         ObjectMeta.UID = ''uid-cron'',
         OwnerReferences =
           [\<lparr>APIVersion = ''wordpress.presslabs.org/v1alpha1'', Kind = ''Wordpress'',
             OwnerReference.Name = ''blog'', OwnerReference.UID = ''uid-old'',
             Controller = Some True, BlockOwnerDeletion = Some True\<rparr>]\<rparr>\<rparr>"

definition foreign_cron :: CronJob where
  "foreign_cron =
     \<lparr>CronJob.ObjectMeta =
        \<lparr>ObjectMeta.Name = ''blog-wp-cron'', ObjectMeta.Namespace = ''default'',
         ObjectMeta.UID = ''uid-cron'',
         OwnerReferences =
           [\<lparr>APIVersion = ''apps/v1'', Kind = ''Deployment'',
             OwnerReference.Name = ''blog'', OwnerReference.UID = ''uid-deploy'',
             Controller = Some True, BlockOwnerDeletion = Some True\<rparr>]\<rparr>\<rparr>"

section \<open>Reading the record of calls\<close>

text \<open>
  What a pass did is read off the record of its calls: the resources written by a
  whole-resource update, the resources whose status was written, the syncers
  constructed and the syncers run, each in the order of the calls.
\<close>

fun updates :: "call list \<Rightarrow> Wordpress list" where
  "updates [] = []"
| "updates (CallUpdate wp # cs) = wp # updates cs"
| "updates (c # cs) = updates cs"

fun status_updates :: "call list \<Rightarrow> Wordpress list" where
  "status_updates [] = []"
| "status_updates (CallStatusUpdate wp # cs) = wp # status_updates cs"
| "status_updates (c # cs) = status_updates cs"

fun constructed :: "call list \<Rightarrow> syncer list" where
  "constructed [] = []"
| "constructed (CallNew s # cs) = s # constructed cs"
| "constructed (c # cs) = constructed cs"

fun ran :: "call list \<Rightarrow> syncer list" where
  "ran [] = []"
| "ran (CallSync s # cs) = s # ran cs"
| "ran (c # cs) = ran cs"

fun deleted :: "call list \<Rightarrow> CronJob list" where
  "deleted [] = []"
| "deleted (CallDelete job # cs) = job # deleted cs"
| "deleted (c # cs) = deleted cs"

text \<open>The state after the syncers \<open>ss\<close> have run one after the other from \<open>st\<close>.\<close>

definition applied :: "('s, 'e) env \<Rightarrow> 's \<Rightarrow> syncer list \<Rightarrow> 's" where
  "applied r st ss = foldl (\<lambda>st s. snd (Sync r s st)) st ss"

section \<open>Ownership as the specification describes it\<close>

text \<open>
  The specification's words: the ownership reference ``names this resource as
  controller''. An owner reference identifies its owner by UID, and marks it as the
  controller by its \<^verbatim>\<open>Controller\<close> flag.
\<close>

definition names_as_controller :: "OwnerReference list \<Rightarrow> Wordpress \<Rightarrow> bool" where
  "names_as_controller refs wp =
     list_ex (\<lambda>ref. Controller ref = Some True
                  \<and> OwnerReference.UID ref = ObjectMeta.UID (Wordpress.ObjectMeta wp)) refs"

section \<open>The pipeline as the specification describes it\<close>

text \<open>
  The specification's words for the membership of the pipeline: the secret, workload,
  service and ingress syncers in this order, then the code storage claim syncer when
  the code volume requests a persistent volume claim, then the media one likewise.
\<close>

definition code_claim_requested :: "Wordpress \<Rightarrow> bool" where
  "code_claim_requested wp =
     (case WordpressSpec.CodeVolumeSpec (Spec wp) of
        None \<Rightarrow> False
      | Some cv \<Rightarrow> (case CodeVolumeSpec.PersistentVolumeClaim cv of None \<Rightarrow> False | Some pvc \<Rightarrow> True))"

definition media_claim_requested :: "Wordpress \<Rightarrow> bool" where
  "media_claim_requested wp =
     (case WordpressSpec.MediaVolumeSpec (Spec wp) of
        None \<Rightarrow> False
      | Some mv \<Rightarrow> (case MediaVolumeSpec.PersistentVolumeClaim mv of None \<Rightarrow> False | Some pvc \<Rightarrow> True))"

definition deployment_syncer :: "Wordpress \<Rightarrow> syncer" where
  "deployment_syncer wp = NewDeploymentSyncer wp (Object (NewSecretSyncer wp))"

definition pipeline :: "Wordpress \<Rightarrow> syncer list" where
  "pipeline wp =
     [NewSecretSyncer wp, deployment_syncer wp, NewServiceSyncer wp, NewIngressSyncer wp]
     @ (if code_claim_requested wp then [NewCodePVCSyncer wp] else [])
     @ (if media_claim_requested wp then [NewMediaPVCSyncer wp] else [])"

section \<open>Properties of the migration\<close>

lemma migrate_domains_routes:
  "fst (migrate_domains ds routes b) = routes @ map (\<lambda>d. \<lparr>Domain = d, Path = ''/''\<rparr>) ds"
  by (induction ds arbitrary: routes b) simp_all

lemma migrate_domains_flag:
  "snd (migrate_domains ds routes b) = (b \<or> ds \<noteq> [])"
  by (induction ds arbitrary: routes b) simp_all

subsection \<open>The pointer version against the value version\<close>

lemma migrate_range_spec:
  "out < length h \<Longrightarrow> Domains (Spec (h ! out)) = doms \<Longrightarrow> set is \<subseteq> {..<length doms} \<Longrightarrow>
   migrate_range is out b h =
     Some (b \<or> is \<noteq> [],
           h[out := (h ! out)\<lparr>Spec := (Spec (h ! out))
               \<lparr>Routes := Routes (Spec (h ! out)) @ map (\<lambda>i. \<lparr>Domain = doms ! i, Path = ''/''\<rparr>) is\<rparr>\<rparr>])"
proof (induction "is" arbitrary: b h)
  case Nil
  then show ?case by (simp add: list_update_same_conv)
next
  case (Cons i "is")
  then show ?case by (simp add: deref_def)
qed

lemma migrate_range_fresh:
  "migrate_range [0..<length (Domains (Spec v))] (length h) False (h @ [v]) =
     Some (Domains (Spec v) \<noteq> [],
           h @ [v\<lparr>Spec := (Spec v)
                 \<lparr>Routes := Routes (Spec v) @ map (\<lambda>d. \<lparr>Domain = d, Path = ''/''\<rparr>) (Domains (Spec v))\<rparr>\<rparr>])"
proof -
  have "map (\<lambda>i. \<lparr>Domain = Domains (Spec v) ! i, Path = ''/''\<rparr>) [0..<length (Domains (Spec v))]
          = map (\<lambda>d. \<lparr>Domain = d, Path = ''/''\<rparr>) (Domains (Spec v))"
    by (rule nth_equalityI) simp_all
  then show ?thesis
    using migrate_range_spec [of "length h" "h @ [v]" "Domains (Spec v)" "[0..<length (Domains (Spec v))]" False]
    by (auto simp: atLeast0LessThan)
qed

lemma maybeMigrate_ptr_refines:
  assumes "deref h wp = Some v"
  shows "maybeMigrate_ptr wp h =
           Some ((length h, snd (maybeMigrate v)), h @ [fst (maybeMigrate v)])"
proof (cases "Routes (Spec v) = []")
  case True
  then show ?thesis
    using assms
    by (simp add: maybeMigrate_ptr_def DeepCopy_def maybeMigrate_def migrate_range_fresh
        deref_def migrate_domains_routes migrate_domains_flag split_beta)
next
  case False
  then show ?thesis
    using assms
    by (simp add: maybeMigrate_ptr_def DeepCopy_def maybeMigrate_def deref_def)
qed

subsection \<open>The record of calls\<close>

lemma updates_append [simp]: "updates (xs @ ys) = updates xs @ updates ys"
  by (induction xs rule: updates.induct) simp_all

lemma status_updates_append [simp]: "status_updates (xs @ ys) = status_updates xs @ status_updates ys"
  by (induction xs rule: status_updates.induct) simp_all

lemma constructed_append [simp]: "constructed (xs @ ys) = constructed xs @ constructed ys"
  by (induction xs rule: constructed.induct) simp_all

lemma ran_append [simp]: "ran (xs @ ys) = ran xs @ ran ys"
  by (induction xs rule: ran.induct) simp_all

lemma deleted_append [simp]: "deleted (xs @ ys) = deleted xs @ deleted ys"
  by (induction xs rule: deleted.induct) simp_all

lemma read_CallNew [simp]:
  "updates (map CallNew ss) = []" "status_updates (map CallNew ss) = []"
  "constructed (map CallNew ss) = ss" "ran (map CallNew ss) = []" "deleted (map CallNew ss) = []"
  by (induction ss) simp_all

lemma read_CallSync [simp]:
  "updates (map CallSync ss) = []" "status_updates (map CallSync ss) = []"
  "constructed (map CallSync ss) = []" "ran (map CallSync ss) = ss" "deleted (map CallSync ss) = []"
  by (induction ss) simp_all

subsection \<open>The loop over the syncers\<close>

lemma sync_append:
  "sync r (xs @ ys) w =
     (case sync r xs w of (Some err, w') \<Rightarrow> (Some err, w') | (None, w') \<Rightarrow> sync r ys w')"
  by (induction xs arbitrary: w) (simp_all split: prod.splits option.splits)

lemma applied_Cons: "applied r st (s # ss) = applied r (snd (Sync r s st)) ss"
  by (simp add: applied_def)

lemma sync_all_succeed:
  "\<forall>i<length ss. fst (Sync r (ss ! i) (applied r (store w) (take i ss))) = None \<Longrightarrow>
   sync r ss w = (None, \<lparr>calls = calls w @ map CallSync ss, store = applied r (store w) ss\<rparr>)"
proof (induction ss arbitrary: w)
  case Nil
  then show ?case by (simp add: applied_def)
next
  case (Cons s ss)
  from Cons.prems have first: "fst (Sync r s (store w)) = None"
    by (auto simp: applied_def dest: spec [of _ 0])
  obtain st1 where st1: "Sync r s (store w) = (None, st1)"
    using first by (cases "Sync r s (store w)") simp
  let ?w1 = "\<lparr>calls = calls w @ [CallSync s], store = st1\<rparr>"
  have "\<forall>i<length ss. fst (Sync r (ss ! i) (applied r (store ?w1) (take i ss))) = None"
  proof (intro allI impI)
    fix i assume "i < length ss"
    then have "fst (Sync r ((s # ss) ! Suc i) (applied r (store w) (take (Suc i) (s # ss)))) = None"
      using Cons.prems by (auto dest: spec [of _ "Suc i"])
    then show "fst (Sync r (ss ! i) (applied r (store ?w1) (take i ss))) = None"
      by (simp add: applied_Cons st1)
  qed
  from Cons.IH [OF this] show ?case
    by (simp add: syncer_Sync_def record_call_def st1 applied_Cons)
qed

lemma sync_calls:
  "\<exists>n \<le> length ss. calls (snd (sync r ss w)) = calls w @ map CallSync (take n ss)"
proof (induction ss arbitrary: w)
  case Nil
  then show ?case by simp
next
  case (Cons s ss)
  obtain e st where step: "Sync r s (store w) = (e, st)" by (cases "Sync r s (store w)")
  show ?case
  proof (cases e)
    case None
    from Cons.IH [of "\<lparr>calls = calls w @ [CallSync s], store = st\<rparr>"]
    obtain n where "n \<le> length ss"
      "calls (snd (sync r ss \<lparr>calls = calls w @ [CallSync s], store = st\<rparr>))
         = calls w @ [CallSync s] @ map CallSync (take n ss)"
      by auto
    then show ?thesis
      using step None
      by (intro exI [of _ "Suc n"]) (simp add: syncer_Sync_def record_call_def)
  next
    case (Some err)
    then show ?thesis
      using step
      by (intro exI [of _ "Suc 0"]) (simp add: syncer_Sync_def record_call_def)
  qed
qed

subsection \<open>The steps of a pass\<close>

lemma build_syncers_pipeline:
  "build_syncers wp w =
     ((pipeline wp, deployment_syncer wp),
      \<lparr>calls = calls w @ map CallNew (pipeline wp), store = store w\<rparr>)"
  by (simp add: build_syncers_def new_syncer_def record_call_def pipeline_def deployment_syncer_def
      code_claim_requested_def media_claim_requested_def split: option.splits)

lemma isOwnedBy_iff:
  "isOwnedBy refs owner \<longleftrightarrow>
     (\<exists>ref \<in> set refs. (Kind ref = ''Wordpress'' \<or> Kind ref = ''wordpress'')
        \<and> OwnerReference.Name ref = ObjectMeta.Name (Wordpress.ObjectMeta owner))"
  by (induction refs) auto

lemma cleanupCronJob_reads:
  "updates (calls (snd (cleanupCronJob r wp w))) = updates (calls w)"
  "status_updates (calls (snd (cleanupCronJob r wp w))) = status_updates (calls w)"
  "constructed (calls (snd (cleanupCronJob r wp w))) = constructed (calls w)"
  "ran (calls (snd (cleanupCronJob r wp w))) = ran (calls w)"
  by (simp_all add: cleanupCronJob_def client_GetCronJob_def client_Delete_def record_call_def Let_def
      split: prod.splits sum.splits)

lemma Reconcile_after_fetch:
  assumes "Get r (NamespacedName request) (store w) = (Inr wp0, st)"
      and "snd (maybeMigrate wp0) = False"
      and "wp = SetDefaults r (Default r wp0)"
      and "w1 = \<lparr>calls = calls w @ [CallGet (NamespacedName request), CallDefault wp0,
                   CallSetDefaults (Default r wp0)] @ map CallNew (pipeline wp), store = st\<rparr>"
  shows "Reconcile r request w =
     (case sync r (pipeline wp) w1 of
        (Some err, w2) \<Rightarrow> ((\<lparr>Requeue = False, RequeueAfter = 0\<rparr>, Some err), w2)
      | (None, w2) \<Rightarrow>
          (let wp' = wp\<lparr>Status := (Status wp)
                       \<lparr>Replicas := DeploymentStatusReplicas r (Object (deployment_syncer wp)) (store w2)\<rparr>\<rparr>
           in case (if Replicas (Status wp) \<noteq> Replicas (Status wp')
                    then client_StatusUpdate r wp' w2 else (None, w2)) of
                (Some errUp, w3) \<Rightarrow> ((\<lparr>Requeue = False, RequeueAfter = 0\<rparr>, Some errUp), w3)
              | (None, w3) \<Rightarrow>
                  (case cleanupCronJob r wp' w3 of
                     (Some err, w4) \<Rightarrow> ((\<lparr>Requeue = False, RequeueAfter = 0\<rparr>, Some err), w4)
                   | (None, w4) \<Rightarrow> ((\<lparr>Requeue = False, RequeueAfter = 0\<rparr>, None), w4))))"
  using assms
  by (cases "maybeMigrate wp0")
     (simp add: Reconcile_def client_Get_def scheme_Default_def wp_SetDefaults_def
        build_syncers_pipeline record_call_def Let_def split: prod.splits option.splits)

subsection \<open>The small cluster\<close>

lemmas fake_simps = fake_client_def cluster_with_def key_of_def blog_request_def blog_key_def
  blog_meta_def no_failure_def

lemma fake_sync_ok: "fst (Sync (fake_client no_failure) s c) = None"
  by (simp add: fake_client_def no_failure_def)

lemma fake_applied_replicas:
  "deployment_replicas (applied (fake_client no_failure) c ss) = deployment_replicas c"
  by (induction ss arbitrary: c) (simp_all add: applied_def fake_client_def no_failure_def)

section \<open>The claims\<close>

text \<open>
  Claim C1. For every resource whose routing list is empty and whose deprecated domain
  list is not, \<open>maybeMigrate\<close> returns the flag \<open>True\<close> and a resource whose routing
  list has one entry for each domain, in order, with path \<open>/\<close> and the domain as host
  name, and whose deprecated domain list is empty; \<open>maybeMigrate\<close> on that result
  returns the flag \<open>False\<close>.
\<close>

theorem maybeMigrate_synthesizes_routes:
  assumes "Routes (Spec wp) = []" and "Domains (Spec wp) \<noteq> []"
  shows "snd (maybeMigrate wp) = True
       \<and> Routes (Spec (fst (maybeMigrate wp))) = map (\<lambda>d. \<lparr>Domain = d, Path = ''/''\<rparr>) (Domains (Spec wp))
       \<and> Domains (Spec (fst (maybeMigrate wp))) = []
       \<and> snd (maybeMigrate (fst (maybeMigrate wp))) = False"
  using assms
  by (simp add: maybeMigrate_def split_beta migrate_domains_routes migrate_domains_flag)

theorem maybeMigrate_synthesizes_routes_witness:
  "Routes (Spec blog_legacy) = [] \<and> Domains (Spec blog_legacy) \<noteq> []
   \<and> snd (maybeMigrate blog_legacy) = True
   \<and> Routes (Spec (fst (maybeMigrate blog_legacy))) =
       [\<lparr>Domain = ''a.example'', Path = ''/''\<rparr>, \<lparr>Domain = ''b.example'', Path = ''/''\<rparr>]
   \<and> Domains (Spec (fst (maybeMigrate blog_legacy))) = []
   \<and> snd (maybeMigrate (fst (maybeMigrate blog_legacy))) = False"
  using maybeMigrate_synthesizes_routes [of blog_legacy]
  by (simp add: blog_legacy_def)

text \<open>
  Claim C8. \<open>maybeMigrate\<close> does not change its input. Called on a pointer \<open>wp\<close> to
  an object \<open>v\<close>, it returns a pointer \<open>out\<close> other than \<open>wp\<close>; afterwards \<open>wp\<close>
  still points to \<open>v\<close>, every object that existed before the call is as it was, and
  the object at \<open>out\<close> and the flag are the results of the value version.
\<close>

text \<open>
  Claim C2. When the fetch succeeds and the migration reports a change, \<open>Reconcile\<close>
  writes the migrated resource with a whole-resource update and returns with the
  outcome of that write. The pass makes these two calls and no other: no defaulting,
  no syncer constructed or run, no status update, no cron job cleanup.
\<close>

theorem Reconcile_migration_pass:
  assumes "Get r (NamespacedName request) (store w) = (Inr wp, st)"
      and "snd (maybeMigrate wp) = True"
      and "Update r (fst (maybeMigrate wp)) st = (err, st')"
  shows "Reconcile r request w =
           ((\<lparr>Requeue = False, RequeueAfter = 0\<rparr>, err),
            \<lparr>calls = calls w @ [CallGet (NamespacedName request), CallUpdate (fst (maybeMigrate wp))],
             store = st'\<rparr>)"
  using assms
  by (cases "maybeMigrate wp") (simp add: Reconcile_def client_Get_def client_Update_def record_call_def)

theorem Reconcile_migration_pass_witness:
  "Get (fake_client no_failure) (NamespacedName blog_request)
       (store \<lparr>calls = [], store = cluster_with blog_legacy [] 0\<rparr>)
     = (Inr blog_legacy, cluster_with blog_legacy [] 0)
   \<and> snd (maybeMigrate blog_legacy) = True
   \<and> Update (fake_client no_failure) (fst (maybeMigrate blog_legacy)) (cluster_with blog_legacy [] 0)
     = (None, cluster_with (fst (maybeMigrate blog_legacy)) [] 0)
   \<and> Reconcile (fake_client no_failure) blog_request \<lparr>calls = [], store = cluster_with blog_legacy [] 0\<rparr>
     = ((\<lparr>Requeue = False, RequeueAfter = 0\<rparr>, None),
        \<lparr>calls = [CallGet blog_key, CallUpdate (fst (maybeMigrate blog_legacy))],
         store = cluster_with (fst (maybeMigrate blog_legacy)) [] 0\<rparr>)"
proof -
  have h1: "Get (fake_client no_failure) (NamespacedName blog_request)
       (store \<lparr>calls = [], store = cluster_with blog_legacy [] 0\<rparr>)
     = (Inr blog_legacy, cluster_with blog_legacy [] 0)"
    by (simp add: fake_simps blog_legacy_def)
  have h2: "snd (maybeMigrate blog_legacy) = True"
    by (simp add: maybeMigrate_def blog_legacy_def)
  have h3: "Update (fake_client no_failure) (fst (maybeMigrate blog_legacy)) (cluster_with blog_legacy [] 0)
     = (None, cluster_with (fst (maybeMigrate blog_legacy)) [] 0)"
    by (simp add: fake_simps maybeMigrate_def blog_legacy_def split_beta)
  show ?thesis
    using h1 h2 h3 Reconcile_migration_pass [OF h1 h2 h3]
    by (simp add: blog_request_def)
qed

text \<open>
  Claim C3. For a list of syncers in which the syncers \<open>pre\<close> succeed one after the
  other and the next syncer \<open>s\<close> returns an error, \<open>sync\<close> returns that error. It
  has run \<open>pre\<close> and \<open>s\<close> in the order of the list and none of the syncers \<open>post\<close>
  after \<open>s\<close>, and it leaves the collaborators in the state in which \<open>s\<close> left them:
  nothing is undone.
\<close>

theorem sync_stops_at_first_error:
  assumes "\<forall>i<length pre. fst (Sync r (pre ! i) (applied r (store w) (take i pre))) = None"
      and "Sync r s (applied r (store w) pre) = (Some err, st')"
  shows "sync r (pre @ s # post) w =
           (Some err, \<lparr>calls = calls w @ map CallSync (pre @ [s]), store = st'\<rparr>)"
  using assms(2)
  by (simp add: sync_append sync_all_succeed [OF assms(1)] syncer_Sync_def record_call_def)

theorem sync_stops_at_first_error_witness:
  "Sync (fake_client deployment_fails) (NewSecretSyncer blog) empty_cluster
      = (None, empty_cluster\<lparr>synced := [NewSecretSyncer blog]\<rparr>)
   \<and> Sync (fake_client deployment_fails) (deployment_syncer blog)
        (applied (fake_client deployment_fails) (store \<lparr>calls = [], store = empty_cluster\<rparr>)
           [NewSecretSyncer blog])
      = (Some ''boom'', empty_cluster\<lparr>synced := [NewSecretSyncer blog]\<rparr>)
   \<and> sync (fake_client deployment_fails)
        ([NewSecretSyncer blog] @ deployment_syncer blog # [NewServiceSyncer blog])
        \<lparr>calls = [], store = empty_cluster\<rparr>
      = (Some ''boom'',
         \<lparr>calls = [CallSync (NewSecretSyncer blog), CallSync (deployment_syncer blog)],
          store = empty_cluster\<lparr>synced := [NewSecretSyncer blog]\<rparr>\<rparr>)"
proof -
  have h1: "\<forall>i<length [NewSecretSyncer blog].
      fst (Sync (fake_client deployment_fails) ([NewSecretSyncer blog] ! i)
             (applied (fake_client deployment_fails) (store \<lparr>calls = [], store = empty_cluster\<rparr>)
                (take i [NewSecretSyncer blog]))) = None"
    by (simp add: fake_client_def deployment_fails_def)
  have h2: "Sync (fake_client deployment_fails) (deployment_syncer blog)
        (applied (fake_client deployment_fails) (store \<lparr>calls = [], store = empty_cluster\<rparr>)
           [NewSecretSyncer blog])
      = (Some ''boom'', empty_cluster\<lparr>synced := [NewSecretSyncer blog]\<rparr>)"
    by (simp add: fake_client_def deployment_fails_def deployment_syncer_def applied_def empty_cluster_def)
  have h0: "Sync (fake_client deployment_fails) (NewSecretSyncer blog) empty_cluster
      = (None, empty_cluster\<lparr>synced := [NewSecretSyncer blog]\<rparr>)"
    by (simp add: fake_client_def deployment_fails_def empty_cluster_def)
  show ?thesis
    using h0 h2 sync_stops_at_first_error [OF h1 h2, of "[NewServiceSyncer blog]"]
    by simp
qed

text \<open>
  Claim C4. In a pass that fetches a resource, needs no migration and whose syncers all
  succeed, let \<open>wp\<close> be the resource after defaulting, whose status holds the replica
  count recorded before, and \<open>observed\<close> the replica count of the deployment after the
  synchronisation. If the two counts are equal the pass makes no status update; if
  they differ it makes exactly one, with the resource whose status holds \<open>observed\<close>.
\<close>

theorem Reconcile_status_write:
  assumes "Get r (NamespacedName request) (store w) = (Inr wp0, st)"
      and "snd (maybeMigrate wp0) = False"
      and "wp = SetDefaults r (Default r wp0)"
      and "\<forall>i<length (pipeline wp). fst (Sync r (pipeline wp ! i) (applied r st (take i (pipeline wp)))) = None"
      and "observed = DeploymentStatusReplicas r (Object (deployment_syncer wp)) (applied r st (pipeline wp))"
  shows "status_updates (calls (snd (Reconcile r request w))) =
           status_updates (calls w)
           @ (if observed = Replicas (Status wp) then []
              else [wp\<lparr>Status := (Status wp)\<lparr>Replicas := observed\<rparr>\<rparr>])"
proof -
  define w1 where "w1 = \<lparr>calls = calls w @ [CallGet (NamespacedName request), CallDefault wp0,
                 CallSetDefaults (Default r wp0)] @ map CallNew (pipeline wp), store = st\<rparr>"
  note unfold = Reconcile_after_fetch [OF assms(1,2,3) w1_def]
  have "\<forall>i<length (pipeline wp). fst (Sync r (pipeline wp ! i) (applied r (store w1) (take i (pipeline wp)))) = None"
    using assms(4) by (simp add: w1_def)
  from sync_all_succeed [OF this]
  have ok: "sync r (pipeline wp) w1 =
      (None, \<lparr>calls = calls w1 @ map CallSync (pipeline wp), store = applied r st (pipeline wp)\<rparr>)"
    by (simp add: w1_def)
  show ?thesis
    unfolding unfold ok
    using assms(5)
    by (simp add: w1_def case_prod_beta Let_def client_StatusUpdate_def record_call_def
          cleanupCronJob_reads split: option.splits)
qed

theorem Reconcile_status_write_witness:
  "Get (fake_client no_failure) (NamespacedName blog_request)
       (store \<lparr>calls = [], store = cluster_with blog [] 3\<rparr>) = (Inr blog, cluster_with blog [] 3)
   \<and> snd (maybeMigrate blog) = False
   \<and> blog = SetDefaults (fake_client no_failure) (Default (fake_client no_failure) blog)
   \<and> 3 = DeploymentStatusReplicas (fake_client no_failure) (Object (deployment_syncer blog))
           (applied (fake_client no_failure) (cluster_with blog [] 3) (pipeline blog))
   \<and> Replicas (Status blog) = 1
   \<and> status_updates (calls (snd (Reconcile (fake_client no_failure) blog_request
                                     \<lparr>calls = [], store = cluster_with blog [] 3\<rparr>)))
       = [blog\<lparr>Status := (Status blog)\<lparr>Replicas := 3\<rparr>\<rparr>]"
proof -
  have h1: "Get (fake_client no_failure) (NamespacedName blog_request)
       (store \<lparr>calls = [], store = cluster_with blog [] 3\<rparr>) = (Inr blog, cluster_with blog [] 3)"
    by (simp add: fake_simps blog_def)
  have h2: "snd (maybeMigrate blog) = False"
    by (simp add: maybeMigrate_def blog_def)
  have h3: "blog = SetDefaults (fake_client no_failure) (Default (fake_client no_failure) blog)"
    by (simp add: fake_client_def)
  have h4: "\<forall>i<length (pipeline blog).
        fst (Sync (fake_client no_failure) (pipeline blog ! i)
               (applied (fake_client no_failure) (cluster_with blog [] 3) (take i (pipeline blog)))) = None"
    by (simp add: fake_sync_ok)
  have h5: "3 = DeploymentStatusReplicas (fake_client no_failure) (Object (deployment_syncer blog))
           (applied (fake_client no_failure) (cluster_with blog [] 3) (pipeline blog))"
    using fake_applied_replicas [of "cluster_with blog [] 3" "pipeline blog"]
    by (simp add: fake_client_def cluster_with_def)
  have r: "Replicas (Status blog) = 1" by (simp add: blog_def)
  show ?thesis
    using h1 h2 h3 h5 r Reconcile_status_write [OF h1 h2 h3 h4 h5]
    by simp
qed

text \<open>
  Claim C5 says that the cleanup never deletes a cron job whose owner references do
  not name the reconciled resource as controller, even when the name in the owner
  reference matches. \<open>isOwnedBy\<close> compares the kind and the name of an owner
  reference only. The cron job \<open>stale_cron\<close> is controlled by a Wordpress resource
  named \<open>blog\<close> whose UID is not that of the reconciled \<open>blog\<close>, and the cleanup
  deletes it.
\<close>

theorem cleanupCronJob_deletes_stale_counterexample:
  "\<not> names_as_controller (OwnerReferences (CronJob.ObjectMeta stale_cron)) blog
   \<and> deleted (calls (snd (cleanupCronJob (fake_client no_failure) blog
                 \<lparr>calls = [], store = cluster_with blog [stale_cron] 1\<rparr>))) = [stale_cron]"
  by (simp add: names_as_controller_def stale_cron_def blog_def blog_meta_def cleanupCronJob_def
      client_GetCronJob_def client_Delete_def record_call_def fake_client_def cluster_with_def key_of_def)

text \<open>
  Claim C5, amended. The cleanup issues no delete for a cron job none of whose owner
  references has the kind \<open>Wordpress\<close> or \<open>wordpress\<close> together with the name of the
  reconciled resource: after the fetch of such a cron job \<open>cleanupCronJob\<close> returns
  without error and has made no further call.
\<close>

theorem cleanupCronJob_keeps_unowned:
  assumes "GetCronJob r \<lparr>Namespace = ObjectMeta.Namespace (Wordpress.ObjectMeta wp),
                          Name = ComponentName_WordpressCron r wp\<rparr> (store w) = (Inr job, st)"
      and "\<forall>ref \<in> set (OwnerReferences (CronJob.ObjectMeta job)).
             \<not> ((Kind ref = ''Wordpress'' \<or> Kind ref = ''wordpress'')
                 \<and> OwnerReference.Name ref = ObjectMeta.Name (Wordpress.ObjectMeta wp))"
  shows "cleanupCronJob r wp w =
           (None, \<lparr>calls = calls w @ [CallGetCronJob \<lparr>Namespace = ObjectMeta.Namespace (Wordpress.ObjectMeta wp),
                                                     Name = ComponentName_WordpressCron r wp\<rparr>],
                   store = st\<rparr>)"
proof -
  have "\<not> isOwnedBy (OwnerReferences (CronJob.ObjectMeta job)) wp"
    using assms(2) by (simp add: isOwnedBy_iff)
  then show ?thesis
    using assms(1)
    by (simp add: cleanupCronJob_def client_GetCronJob_def record_call_def)
qed

theorem cleanupCronJob_keeps_unowned_witness:
  "GetCronJob (fake_client no_failure)
      \<lparr>Namespace = ObjectMeta.Namespace (Wordpress.ObjectMeta blog),
       Name = ComponentName_WordpressCron (fake_client no_failure) blog\<rparr>
      (store \<lparr>calls = [], store = cluster_with blog [foreign_cron] 1\<rparr>)
     = (Inr foreign_cron, cluster_with blog [foreign_cron] 1)
   \<and> map Kind (OwnerReferences (CronJob.ObjectMeta foreign_cron)) = [''Deployment'']
   \<and> map OwnerReference.Name (OwnerReferences (CronJob.ObjectMeta foreign_cron))
       = [ObjectMeta.Name (Wordpress.ObjectMeta blog)]
   \<and> cleanupCronJob (fake_client no_failure) blog \<lparr>calls = [], store = cluster_with blog [foreign_cron] 1\<rparr>
     = (None, \<lparr>calls = [CallGetCronJob \<lparr>Namespace = ''default'', Name = ''blog-wp-cron''\<rparr>],
               store = cluster_with blog [foreign_cron] 1\<rparr>)"
proof -
  have h1: "GetCronJob (fake_client no_failure)
      \<lparr>Namespace = ObjectMeta.Namespace (Wordpress.ObjectMeta blog),
       Name = ComponentName_WordpressCron (fake_client no_failure) blog\<rparr>
      (store \<lparr>calls = [], store = cluster_with blog [foreign_cron] 1\<rparr>)
     = (Inr foreign_cron, cluster_with blog [foreign_cron] 1)"
    by (simp add: fake_simps blog_def foreign_cron_def)
  have h2: "\<forall>ref \<in> set (OwnerReferences (CronJob.ObjectMeta foreign_cron)).
         \<not> ((Kind ref = ''Wordpress'' \<or> Kind ref = ''wordpress'')
             \<and> OwnerReference.Name ref = ObjectMeta.Name (Wordpress.ObjectMeta blog))"
    by (simp add: foreign_cron_def)
  have k: "\<lparr>Namespace = ObjectMeta.Namespace (Wordpress.ObjectMeta blog),
       Name = ComponentName_WordpressCron (fake_client no_failure) blog\<rparr>
       = \<lparr>Namespace = ''default'', Name = ''blog-wp-cron''\<rparr>"
    by (simp add: fake_client_def blog_def blog_meta_def)
  have o: "map Kind (OwnerReferences (CronJob.ObjectMeta foreign_cron)) = [''Deployment'']"
    "map OwnerReference.Name (OwnerReferences (CronJob.ObjectMeta foreign_cron))
       = [ObjectMeta.Name (Wordpress.ObjectMeta blog)]"
    by (simp_all add: foreign_cron_def blog_def blog_meta_def)
  show ?thesis
    using h1 o cleanupCronJob_keeps_unowned [OF h1 h2]
    by (simp add: k)
qed

text \<open>
  Claim C6. When the fetch of the resource fails, \<open>Reconcile\<close> makes no further call.
  It returns no error if the fetch error is a not-found error, and the fetch error
  itself otherwise.
\<close>

theorem Reconcile_fetch_error:
  assumes "Get r (NamespacedName request) (store w) = (Inl err, st)"
  shows "Reconcile r request w =
           ((\<lparr>Requeue = False, RequeueAfter = 0\<rparr>, if IsNotFound r err then None else Some err),
            \<lparr>calls = calls w @ [CallGet (NamespacedName request)], store = st\<rparr>)"
  using assms by (simp add: Reconcile_def client_Get_def record_call_def ignoreNotFound_def)

theorem Reconcile_fetch_error_witness:
  "Get (fake_client no_failure) (NamespacedName blog_request) (store \<lparr>calls = [], store = empty_cluster\<rparr>)
     = (Inl ''NotFound'', empty_cluster)
   \<and> Reconcile (fake_client no_failure) blog_request \<lparr>calls = [], store = empty_cluster\<rparr>
     = ((\<lparr>Requeue = False, RequeueAfter = 0\<rparr>, None),
        \<lparr>calls = [CallGet blog_key], store = empty_cluster\<rparr>)"
proof -
  have h: "Get (fake_client no_failure) (NamespacedName blog_request)
             (store \<lparr>calls = [], store = empty_cluster\<rparr>) = (Inl ''NotFound'', empty_cluster)"
    by (simp add: fake_client_def empty_cluster_def)
  show ?thesis
    using h Reconcile_fetch_error [OF h]
    by (simp add: fake_client_def blog_request_def)
qed

text \<open>
  Claim C7. The list of syncers \<open>Reconcile\<close> builds depends on the resource only: it
  is the secret, deployment, service and ingress syncers in this order, followed by the
  code claim syncer exactly when the code volume requests a persistent volume claim,
  and by the media claim syncer exactly when the media volume does (\<open>pipeline\<close>). In a
  pass that fetches a resource and needs no migration, the syncers constructed are
  those of the resource after defaulting, in this order, and the syncers run are the
  first ones of that list.
\<close>

theorem Reconcile_builds_pipeline:
  assumes "Get r (NamespacedName request) (store w) = (Inr wp0, st)"
      and "snd (maybeMigrate wp0) = False"
      and "wp = SetDefaults r (Default r wp0)"
  shows "fst (fst (build_syncers wp w')) = pipeline wp
       \<and> constructed (calls (snd (Reconcile r request w))) = constructed (calls w) @ pipeline wp
       \<and> (\<exists>n \<le> length (pipeline wp).
            ran (calls (snd (Reconcile r request w))) = ran (calls w) @ take n (pipeline wp))"
proof -
  define w1 where "w1 = \<lparr>calls = calls w @ [CallGet (NamespacedName request), CallDefault wp0,
                 CallSetDefaults (Default r wp0)] @ map CallNew (pipeline wp), store = st\<rparr>"
  note unfold = Reconcile_after_fetch [OF assms w1_def]
  obtain n where n: "n \<le> length (pipeline wp)"
    "calls (snd (sync r (pipeline wp) w1)) = calls w1 @ map CallSync (take n (pipeline wp))"
    using sync_calls [of "pipeline wp" r w1] by auto
  have c: "constructed (calls (snd (Reconcile r request w))) = constructed (calls w) @ pipeline wp"
    using n(2)
    by (simp add: unfold w1_def case_prod_beta Let_def client_StatusUpdate_def record_call_def
          cleanupCronJob_reads split: option.splits)
  have "ran (calls (snd (Reconcile r request w))) = ran (calls w) @ take n (pipeline wp)"
    using n(2)
    by (simp add: unfold w1_def case_prod_beta Let_def client_StatusUpdate_def record_call_def
          cleanupCronJob_reads split: option.splits)
  with n(1) c show ?thesis
    by (auto simp: build_syncers_pipeline)
qed

theorem Reconcile_builds_pipeline_witness:
  "Get (fake_client no_failure) (NamespacedName blog_request)
       (store \<lparr>calls = [], store = cluster_with blog [] 3\<rparr>) = (Inr blog, cluster_with blog [] 3)
   \<and> snd (maybeMigrate blog) = False
   \<and> blog = SetDefaults (fake_client no_failure) (Default (fake_client no_failure) blog)
   \<and> pipeline blog = [NewSecretSyncer blog, NewDeploymentSyncer blog (Object (NewSecretSyncer blog)),
                       NewServiceSyncer blog, NewIngressSyncer blog, NewCodePVCSyncer blog]
   \<and> fst (fst (build_syncers blog \<lparr>calls = [], store = empty_cluster\<rparr>)) = pipeline blog
   \<and> constructed (calls (snd (Reconcile (fake_client no_failure) blog_request
                                  \<lparr>calls = [], store = cluster_with blog [] 3\<rparr>))) = pipeline blog
   \<and> (\<exists>n \<le> length (pipeline blog).
         ran (calls (snd (Reconcile (fake_client no_failure) blog_request
                            \<lparr>calls = [], store = cluster_with blog [] 3\<rparr>))) = take n (pipeline blog))"
proof -
  have h1: "Get (fake_client no_failure) (NamespacedName blog_request)
       (store \<lparr>calls = [], store = cluster_with blog [] 3\<rparr>) = (Inr blog, cluster_with blog [] 3)"
    by (simp add: fake_simps blog_def)
  have h2: "snd (maybeMigrate blog) = False"
    by (simp add: maybeMigrate_def blog_def)
  have h3: "blog = SetDefaults (fake_client no_failure) (Default (fake_client no_failure) blog)"
    by (simp add: fake_client_def)
  have p: "pipeline blog = [NewSecretSyncer blog, NewDeploymentSyncer blog (Object (NewSecretSyncer blog)),
                       NewServiceSyncer blog, NewIngressSyncer blog, NewCodePVCSyncer blog]"
    by (simp add: pipeline_def deployment_syncer_def code_claim_requested_def media_claim_requested_def blog_def)
  show ?thesis
    using h1 h2 h3 p
      Reconcile_builds_pipeline [OF h1 h2 h3, of "\<lparr>calls = [], store = empty_cluster\<rparr>"]
    by simp
qed

text \<open>
  Claim C8. \<open>maybeMigrate\<close> does not change its input. Called on a pointer \<open>wp\<close> to
  an object \<open>v\<close>, it returns a pointer \<open>out\<close> other than \<open>wp\<close>; afterwards \<open>wp\<close>
  still points to \<open>v\<close>, every object that existed before the call is as it was, and
  the object at \<open>out\<close> and the flag are the results of the value version.
\<close>

theorem maybeMigrate_leaves_input_untouched:
  assumes "deref h wp = Some v"
  shows "\<exists>out needsMigration h'.
           maybeMigrate_ptr wp h = Some ((out, needsMigration), h')
         \<and> out \<noteq> wp
         \<and> deref h' wp = Some v
         \<and> take (length h) h' = h
         \<and> deref h' out = Some (fst (maybeMigrate v))
         \<and> needsMigration = snd (maybeMigrate v)"
  using assms maybeMigrate_ptr_refines [OF assms]
  by (auto simp: deref_def nth_append split: if_splits)

theorem maybeMigrate_leaves_input_untouched_witness:
  "deref [blog_legacy] 0 = Some blog_legacy
   \<and> (\<exists>out needsMigration h'.
           maybeMigrate_ptr 0 [blog_legacy] = Some ((out, needsMigration), h')
         \<and> out \<noteq> 0
         \<and> deref h' 0 = Some blog_legacy
         \<and> take (length [blog_legacy]) h' = [blog_legacy]
         \<and> deref h' out = Some (fst (maybeMigrate blog_legacy))
         \<and> needsMigration = snd (maybeMigrate blog_legacy))"
proof -
  have h: "deref [blog_legacy] 0 = Some blog_legacy" by (simp add: deref_def)
  show ?thesis using h maybeMigrate_leaves_input_untouched [OF h] by simp
qed

text \<open>
  Claim C10. \<open>Reconcile\<close> never asks for a requeue: whatever the collaborators answer,
  the result it returns has the requeue flag unset and the requeue delay zero.
\<close>

text \<open>
  Claim C9. For a fetched resource whose routing list is not empty, \<open>maybeMigrate\<close>
  returns the flag \<open>False\<close>, whatever the deprecated domain list holds, and the
  domain list is empty in the copy it returns. \<open>Reconcile\<close> goes on with the resource
  as fetched (the next call is the defaulting of that resource), makes no
  whole-resource update in the pass, and every status update of the pass carries the
  specification of the fetched resource after defaulting: the copy is never written.
\<close>

theorem Reconcile_keeps_original_when_routed:
  assumes "Get r (NamespacedName request) (store w) = (Inr wp0, st)"
      and "Routes (Spec wp0) \<noteq> []"
  shows "snd (maybeMigrate wp0) = False
       \<and> Domains (Spec (fst (maybeMigrate wp0))) = []
       \<and> updates (calls (snd (Reconcile r request w))) = updates (calls w)
       \<and> (\<exists>rest. calls (snd (Reconcile r request w)) =
                    calls w @ CallGet (NamespacedName request) # CallDefault wp0 # rest)
       \<and> (\<exists>xs. status_updates (calls (snd (Reconcile r request w))) = status_updates (calls w) @ xs
              \<and> (\<forall>x \<in> set xs. Spec x = Spec (SetDefaults r (Default r wp0))))"
proof -
  define wp where "wp = SetDefaults r (Default r wp0)"
  define w1 where "w1 = \<lparr>calls = calls w @ [CallGet (NamespacedName request), CallDefault wp0,
                 CallSetDefaults (Default r wp0)] @ map CallNew (pipeline wp), store = st\<rparr>"
  have nomig: "snd (maybeMigrate wp0) = False"
    using assms(2) by (simp add: maybeMigrate_def)
  have cleared: "Domains (Spec (fst (maybeMigrate wp0))) = []"
    by (simp add: maybeMigrate_def split_beta)
  note unfold = Reconcile_after_fetch [OF assms(1) nomig wp_def w1_def]
  obtain n where n: "calls (snd (sync r (pipeline wp) w1)) = calls w1 @ map CallSync (take n (pipeline wp))"
    using sync_calls [of "pipeline wp" r w1] by auto
  have u: "updates (calls (snd (Reconcile r request w))) = updates (calls w)"
    using n
    by (simp add: unfold w1_def case_prod_beta Let_def client_StatusUpdate_def record_call_def
          cleanupCronJob_reads split: option.splits)
  have s: "\<exists>xs. status_updates (calls (snd (Reconcile r request w))) = status_updates (calls w) @ xs
              \<and> (\<forall>x \<in> set xs. Spec x = Spec wp)"
    using n
    by (simp add: unfold w1_def case_prod_beta Let_def client_StatusUpdate_def record_call_def
          cleanupCronJob_reads split: option.splits)
  have "\<exists>cs. calls (snd (cleanupCronJob r x v)) = calls v @ cs" for x v
    by (simp add: cleanupCronJob_def client_GetCronJob_def client_Delete_def record_call_def Let_def
      split: prod.splits sum.splits)
  then obtain cl where cl: "\<And>x v. calls (snd (cleanupCronJob r x v)) = calls v @ cl x v"
    by metis
  have p: "\<exists>rest. calls (snd (Reconcile r request w)) =
                    calls w @ CallGet (NamespacedName request) # CallDefault wp0 # rest"
    using n
    by (simp add: unfold w1_def case_prod_beta Let_def client_StatusUpdate_def record_call_def
          cl split: option.splits)
  from nomig cleared u s p show ?thesis
    by (simp add: wp_def)
qed

theorem Reconcile_keeps_original_when_routed_witness:
  "Get (fake_client no_failure) (NamespacedName blog_request)
       (store \<lparr>calls = [], store = cluster_with blog [] 3\<rparr>) = (Inr blog, cluster_with blog [] 3)
   \<and> Routes (Spec blog) \<noteq> []
   \<and> Domains (Spec blog) = [''old.example'']
   \<and> snd (maybeMigrate blog) = False
   \<and> Domains (Spec (fst (maybeMigrate blog))) = []
   \<and> updates (calls (snd (Reconcile (fake_client no_failure) blog_request
                              \<lparr>calls = [], store = cluster_with blog [] 3\<rparr>))) = []
   \<and> (\<exists>rest. calls (snd (Reconcile (fake_client no_failure) blog_request
                              \<lparr>calls = [], store = cluster_with blog [] 3\<rparr>))
              = CallGet (NamespacedName blog_request) # CallDefault blog # rest)
   \<and> (\<exists>xs. status_updates (calls (snd (Reconcile (fake_client no_failure) blog_request
                              \<lparr>calls = [], store = cluster_with blog [] 3\<rparr>))) = xs
          \<and> (\<forall>x \<in> set xs. Spec x = Spec blog))"
proof -
  have h1: "Get (fake_client no_failure) (NamespacedName blog_request)
       (store \<lparr>calls = [], store = cluster_with blog [] 3\<rparr>) = (Inr blog, cluster_with blog [] 3)"
    by (simp add: fake_simps blog_def)
  have h2: "Routes (Spec blog) \<noteq> []" by (simp add: blog_def)
  have d: "Domains (Spec blog) = [''old.example'']" by (simp add: blog_def)
  have e: "SetDefaults (fake_client no_failure) (Default (fake_client no_failure) blog) = blog"
    by (simp add: fake_client_def)
  show ?thesis
    using h1 h2 d Reconcile_keeps_original_when_routed [OF h1 h2]
    by (simp add: e)
qed

text \<open>
  Claim C10. \<open>Reconcile\<close> never asks for a requeue: whatever the collaborators answer,
  the result it returns has the requeue flag unset and the requeue delay zero.
\<close>

theorem Reconcile_never_requeues:
  "fst (fst (Reconcile r request w)) = \<lparr>Requeue = False, RequeueAfter = 0\<rparr>"
  by (simp add: Reconcile_def split_beta Let_def split: prod.splits sum.splits option.splits bool.splits)

end
